theory Spec2Isabelle
  imports Main "HOL-Library.Word" "HOL-Library.Sublist"
begin

section \<open>Values\<close>

text \<open>
  A \<^verbatim>\<open>uuid.UUID\<close> is a 128-bit number. It defines neither \<^verbatim>\<open>__bool__\<close> nor
  \<^verbatim>\<open>__len__\<close>, so every UUID is truthy, the all-zero one included.
  A \<^verbatim>\<open>datetime\<close> is counted in microseconds, the resolution of \<^verbatim>\<open>datetime.utcnow()\<close>.
  A \<^verbatim>\<open>float\<close> is only stored and handed back, never computed with: it is its 64 bits.
\<close>

type_synonym UUID = "128 word"
type_synonym datetime = nat
type_synonym float = "64 word"

text \<open>
  \<^verbatim>\<open>datetime.date\<close>: year (1..9999), month, day. \<^verbatim>\<open>str(d)\<close> is the ISO form
  \<^verbatim>\<open>YYYY-MM-DD\<close>, zero padded. A date is always truthy.
\<close>

datatype date = Date (year: nat) (month: nat) (day: nat)

definition digit :: "nat \<Rightarrow> char" where
  "digit n = ''0123456789'' ! (n mod 10)"

definition str_date :: "date \<Rightarrow> string" where
  "str_date d =
     [digit (year d div 1000), digit (year d div 100), digit (year d div 10), digit (year d)]
     @ ''-'' @ [digit (month d div 10), digit (month d)]
     @ ''-'' @ [digit (day d div 10), digit (day d)]"

text \<open>\<^verbatim>\<open>str(x)\<close> of an optional date: \<^verbatim>\<open>str(None)\<close> is the four letters \<^verbatim>\<open>None\<close>.\<close>

definition str_opt_date :: "date option \<Rightarrow> string" where
  "str_opt_date x = (case x of None \<Rightarrow> ''None'' | Some d \<Rightarrow> str_date d)"

text \<open>The \<^verbatim>\<open>Literal\<close> types of models/allergy.py and models/medication.py, with the
  strings they stand for (a \<^verbatim>\<open>Literal\<close> value is a plain \<^verbatim>\<open>str\<close> at run time).\<close>

datatype AllergySeverity = Mild | Moderate | Severe

fun AllergySeverity_str :: "AllergySeverity \<Rightarrow> string" where
  "AllergySeverity_str Mild = ''mild''"
| "AllergySeverity_str Moderate = ''moderate''"
| "AllergySeverity_str Severe = ''severe''"

datatype AllergyType = Drug | Food | Environment | OtherType

fun AllergyType_str :: "AllergyType \<Rightarrow> string" where
  "AllergyType_str Drug = ''drug''"
| "AllergyType_str Food = ''food''"
| "AllergyType_str Environment = ''environment''"
| "AllergyType_str OtherType = ''other''"

datatype DoseUnit = Mg | Mcg | G | MilliL | Units | Puffs | Drops

datatype Frequency = Once_daily | Twice_daily | Three_times_daily | As_needed | OtherFreq


section \<open>Errors\<close>

text \<open>
  \<^verbatim>\<open>HTTPException(status_code, detail)\<close> is raised by the handlers; \<^verbatim>\<open>ValidationError\<close>
  is what pydantic raises when a \<^verbatim>\<open>...Read(**stored)\<close> construction gets \<^verbatim>\<open>None\<close>
  for a field whose type is not \<^verbatim>\<open>Optional\<close>; \<^verbatim>\<open>KeyError\<close> is a failed \<^verbatim>\<open>d[k]\<close>.
\<close>

datatype error = HTTPException nat string | ValidationError | KeyError

section \<open>The in-memory stores\<close>

text \<open>
  A Python \<^verbatim>\<open>dict\<close> iterates in insertion order; assigning to a key that is present
  replaces the value where it stands, assigning to a new key appends it. The stores are
  therefore association lists.
\<close>

type_synonym ('k, 'v) dict = "('k \<times> 'v) list"

definition dict_keys :: "('k, 'v) dict \<Rightarrow> 'k list" where
  "dict_keys d = map fst d"

definition dict_values :: "('k, 'v) dict \<Rightarrow> 'v list" where
  "dict_values d = map snd d"

definition dict_contains :: "('k, 'v) dict \<Rightarrow> 'k \<Rightarrow> bool" where
  "dict_contains d k = (k \<in> set (dict_keys d))"

definition dict_getitem :: "('k, 'v) dict \<Rightarrow> 'k \<Rightarrow> error + 'v" where
  "dict_getitem d k = (case map_of d k of None \<Rightarrow> Inl KeyError | Some v \<Rightarrow> Inr v)"

fun dict_setitem :: "('k, 'v) dict \<Rightarrow> 'k \<Rightarrow> 'v \<Rightarrow> ('k, 'v) dict" where
  "dict_setitem [] k v = [(k, v)]"
| "dict_setitem ((k', v') # d) k v =
     (if k' = k then (k, v) # d else (k', v') # dict_setitem d k v)"

text \<open>
  \<^verbatim>\<open>stored.update(update.model_dump(exclude_unset=True))\<close>, one key at a time. A field
  of an update payload is in one of three states: not set (\<open>None\<close>), set to null
  (\<open>Some None\<close>), set to a value (\<open>Some (Some v)\<close>); only a set field is dumped, and a dumped
  field replaces the stored entry.
\<close>

definition dict_update1 :: "'a option \<Rightarrow> 'a option option \<Rightarrow> 'a option" where
  "dict_update1 stored u = (case u of None \<Rightarrow> stored | Some v \<Rightarrow> v)"

text \<open>\<^verbatim>\<open>if x is not None: results = [r for r in results if p(x, r)]\<close>\<close>

definition filter_if_given :: "'p option \<Rightarrow> ('p \<Rightarrow> 'r \<Rightarrow> bool) \<Rightarrow> 'r list \<Rightarrow> 'r list" where
  "filter_if_given x p results = (case x of None \<Rightarrow> results | Some v \<Rightarrow> filter (p v) results)"

section \<open>Allergy (models/allergy.py)\<close>

record AllergyCreate =
  ac_id :: UUID
  ac_person_id :: UUID
  ac_allergen :: string
  ac_allergy_type :: AllergyType
  ac_reaction :: "string option"
  ac_severity :: AllergySeverity
  ac_noted_date :: "date option"

record AllergyUpdate =
  au_allergen :: "string option option"
  au_allergy_type :: "AllergyType option option"
  au_reaction :: "string option option"
  au_severity :: "AllergySeverity option option"
  au_noted_date :: "date option option"

record AllergyRead =
  a_id :: UUID
  a_person_id :: UUID
  a_allergen :: string
  a_allergy_type :: AllergyType
  a_reaction :: "string option"
  a_severity :: AllergySeverity
  a_noted_date :: "date option"
  a_created_at :: datetime
  a_updated_at :: datetime

text \<open>
  \<^verbatim>\<open>AllergyRead(**allergy.model_dump())\<close>: the dump of an \<^verbatim>\<open>AllergyCreate\<close> has no
  \<^verbatim>\<open>created_at\<close> and no \<^verbatim>\<open>updated_at\<close>, so each of the two gets its own call of the
  default factory \<^verbatim>\<open>datetime.utcnow\<close>, in field order: \<open>t1\<close> is the first reading of the
  clock, \<open>t2\<close> the second.
\<close>

definition AllergyRead_of_create :: "AllergyCreate \<Rightarrow> datetime \<Rightarrow> datetime \<Rightarrow> AllergyRead" where
  "AllergyRead_of_create c t1 t2 =
     \<lparr> a_id = ac_id c, a_person_id = ac_person_id c, a_allergen = ac_allergen c,
       a_allergy_type = ac_allergy_type c, a_reaction = ac_reaction c,
       a_severity = ac_severity c, a_noted_date = ac_noted_date c,
       a_created_at = t1, a_updated_at = t2 \<rparr>"

text \<open>
  \<^verbatim>\<open>stored = allergies[id].model_dump(); stored.update(update.model_dump(exclude_unset=True));
  AllergyRead(**stored)\<close>. The dump of the stored record holds all nine fields, so no default
  factory runs. \<^verbatim>\<open>allergen\<close>, \<^verbatim>\<open>allergy_type\<close> and \<^verbatim>\<open>severity\<close> are not
  \<^verbatim>\<open>Optional\<close> in \<^verbatim>\<open>AllergyBase\<close>: \<^verbatim>\<open>None\<close> there fails validation (\<open>None\<close> here).
\<close>

definition AllergyRead_merge :: "AllergyRead \<Rightarrow> AllergyUpdate \<Rightarrow> AllergyRead option" where
  "AllergyRead_merge stored u =
     (case (dict_update1 (Some (a_allergen stored)) (au_allergen u),
            dict_update1 (Some (a_allergy_type stored)) (au_allergy_type u),
            dict_update1 (Some (a_severity stored)) (au_severity u)) of
        (Some allergen, Some allergy_type, Some severity) \<Rightarrow>
          Some \<lparr> a_id = a_id stored, a_person_id = a_person_id stored,
                 a_allergen = allergen, a_allergy_type = allergy_type,
                 a_reaction = dict_update1 (a_reaction stored) (au_reaction u),
                 a_severity = severity,
                 a_noted_date = dict_update1 (a_noted_date stored) (au_noted_date u),
                 a_created_at = a_created_at stored, a_updated_at = a_updated_at stored \<rparr>
      | _ \<Rightarrow> None)"

section \<open>Medication (models/medication.py)\<close>

record MedicationCreate =
  mc_id :: UUID
  mc_person_id :: UUID
  mc_name :: string
  mc_dose :: "float option"
  mc_dose_unit :: "DoseUnit option"
  mc_frequency :: Frequency
  mc_instructions :: "string option"
  mc_start_date :: "date option"
  mc_end_date :: "date option"
  mc_is_current :: bool

record MedicationUpdate =
  mu_name :: "string option option"
  mu_dose :: "float option option"
  mu_dose_unit :: "DoseUnit option option"
  mu_frequency :: "Frequency option option"
  mu_instructions :: "string option option"
  mu_start_date :: "date option option"
  mu_end_date :: "date option option"
  mu_is_current :: "bool option option"

record MedicationRead =
  m_id :: UUID
  m_person_id :: UUID
  m_name :: string
  m_dose :: "float option"
  m_dose_unit :: "DoseUnit option"
  m_frequency :: Frequency
  m_instructions :: "string option"
  m_start_date :: "date option"
  m_end_date :: "date option"
  m_is_current :: bool
  m_created_at :: datetime
  m_updated_at :: datetime

definition MedicationRead_of_create ::
  "MedicationCreate \<Rightarrow> datetime \<Rightarrow> datetime \<Rightarrow> MedicationRead" where
  "MedicationRead_of_create c t1 t2 =
     \<lparr> m_id = mc_id c, m_person_id = mc_person_id c, m_name = mc_name c,
       m_dose = mc_dose c, m_dose_unit = mc_dose_unit c, m_frequency = mc_frequency c,
       m_instructions = mc_instructions c, m_start_date = mc_start_date c,
       m_end_date = mc_end_date c, m_is_current = mc_is_current c,
       m_created_at = t1, m_updated_at = t2 \<rparr>"

text \<open>\<^verbatim>\<open>name\<close>, \<^verbatim>\<open>frequency\<close> and \<^verbatim>\<open>is_current\<close> are not \<^verbatim>\<open>Optional\<close> in
  \<^verbatim>\<open>MedicationBase\<close>.\<close>

definition MedicationRead_merge ::
  "MedicationRead \<Rightarrow> MedicationUpdate \<Rightarrow> MedicationRead option" where
  "MedicationRead_merge stored u =
     (case (dict_update1 (Some (m_name stored)) (mu_name u),
            dict_update1 (Some (m_frequency stored)) (mu_frequency u),
            dict_update1 (Some (m_is_current stored)) (mu_is_current u)) of
        (Some name, Some frequency, Some is_current) \<Rightarrow>
          Some \<lparr> m_id = m_id stored, m_person_id = m_person_id stored, m_name = name,
                 m_dose = dict_update1 (m_dose stored) (mu_dose u),
                 m_dose_unit = dict_update1 (m_dose_unit stored) (mu_dose_unit u),
                 m_frequency = frequency,
                 m_instructions = dict_update1 (m_instructions stored) (mu_instructions u),
                 m_start_date = dict_update1 (m_start_date stored) (mu_start_date u),
                 m_end_date = dict_update1 (m_end_date stored) (mu_end_date u),
                 m_is_current = is_current,
                 m_created_at = m_created_at stored, m_updated_at = m_updated_at stored \<rparr>
      | _ \<Rightarrow> None)"

section \<open>Address and Person\<close>

text \<open>
  Modelled from the spec: models/address.py and models/person.py are not among the
  source files; main.py imports \<^verbatim>\<open>AddressCreate\<close>, \<^verbatim>\<open>AddressRead\<close>, \<^verbatim>\<open>AddressUpdate\<close>,
  \<^verbatim>\<open>PersonCreate\<close>, \<^verbatim>\<open>PersonRead\<close> and \<^verbatim>\<open>PersonUpdate\<close> from them. The fields are the
  ones main.py reads (\<^verbatim>\<open>id\<close>, and the attributes its list handlers compare). The rest
  follows the spec's words: every record kind has \<^verbatim>\<open>id\<close>, \<^verbatim>\<open>created_at\<close> and
  \<^verbatim>\<open>updated_at\<close>; at creation \<^verbatim>\<open>created_at == updated_at\<close>, both set to a time at or
  after the call, so the record gets one reading of the clock for both; every create
  accepts an identifier; dates are optional; an update payload holds the
  resource-specific fields but not the identifier or the timestamps. Whether a text
  field may be null is not known: it is typed as nullable, a required field being one
  that is never \<open>None\<close>. \<^verbatim>\<open>addresses\<close> is iterated by \<^verbatim>\<open>list_persons\<close> without a test
  for \<^verbatim>\<open>None\<close>, so it is a list.
\<close>

record AddressCreate =
  adc_id :: UUID
  adc_street :: "string option"
  adc_city :: "string option"
  adc_state :: "string option"
  adc_postal_code :: "string option"
  adc_country :: "string option"

record AddressUpdate =
  adu_street :: "string option option"
  adu_city :: "string option option"
  adu_state :: "string option option"
  adu_postal_code :: "string option option"
  adu_country :: "string option option"

record AddressRead =
  ad_id :: UUID
  ad_street :: "string option"
  ad_city :: "string option"
  ad_state :: "string option"
  ad_postal_code :: "string option"
  ad_country :: "string option"
  ad_created_at :: datetime
  ad_updated_at :: datetime

text \<open>
  Modelled from the spec: \<^verbatim>\<open>AddressRead(**address.model_dump())\<close>, with models/address.py
  absent. The record gets one clock reading for both timestamps (spec 8:
  \<^verbatim>\<open>created_at == updated_at\<close> at creation).
\<close>

definition AddressRead_of_create :: "AddressCreate \<Rightarrow> datetime \<Rightarrow> AddressRead" where
  "AddressRead_of_create c t =
     \<lparr> ad_id = adc_id c, ad_street = adc_street c, ad_city = adc_city c,
       ad_state = adc_state c, ad_postal_code = adc_postal_code c,
       ad_country = adc_country c, ad_created_at = t, ad_updated_at = t \<rparr>"


text \<open>An element of a Person's embedded address sequence: \<^verbatim>\<open>list_persons\<close> reads its
  \<^verbatim>\<open>city\<close> and its \<^verbatim>\<open>country\<close>.\<close>

record EmbeddedAddress =
  ea_street :: "string option"
  ea_city :: "string option"
  ea_state :: "string option"
  ea_postal_code :: "string option"
  ea_country :: "string option"

record PersonCreate =
  pc_id :: UUID
  pc_uni :: "string option"
  pc_first_name :: "string option"
  pc_last_name :: "string option"
  pc_email :: "string option"
  pc_phone :: "string option"
  pc_birth_date :: "date option"
  pc_addresses :: "EmbeddedAddress list"

record PersonUpdate =
  pu_uni :: "string option option"
  pu_first_name :: "string option option"
  pu_last_name :: "string option option"
  pu_email :: "string option option"
  pu_phone :: "string option option"
  pu_birth_date :: "date option option"
  pu_addresses :: "EmbeddedAddress list option option"

record PersonRead =
  p_id :: UUID
  p_uni :: "string option"
  p_first_name :: "string option"
  p_last_name :: "string option"
  p_email :: "string option"
  p_phone :: "string option"
  p_birth_date :: "date option"
  p_addresses :: "EmbeddedAddress list"
  p_created_at :: datetime
  p_updated_at :: datetime

text \<open>
  Modelled from the spec: \<^verbatim>\<open>PersonRead(**person.model_dump())\<close>, with models/person.py
  absent. main.py reads \<^verbatim>\<open>person_read.id\<close> only, never \<^verbatim>\<open>person.id\<close>: \<open>pc_id\<close> stands for
  the identifier the built record carries, which is the payload's when the payload has
  one (spec 4.5: each create accepts an optional caller-supplied identifier) and the one
  the identity allocator draws otherwise. The record gets one clock reading for both
  timestamps (spec 8: \<^verbatim>\<open>created_at == updated_at\<close> at creation).
\<close>

definition PersonRead_of_create :: "PersonCreate \<Rightarrow> datetime \<Rightarrow> PersonRead" where
  "PersonRead_of_create c t =
     \<lparr> p_id = pc_id c, p_uni = pc_uni c, p_first_name = pc_first_name c,
       p_last_name = pc_last_name c, p_email = pc_email c, p_phone = pc_phone c,
       p_birth_date = pc_birth_date c, p_addresses = pc_addresses c,
       p_created_at = t, p_updated_at = t \<rparr>"


section \<open>The handlers of main.py\<close>

text \<open>The four module-level dictionaries.\<close>

record state =
  persons :: "(UUID, PersonRead) dict"
  addresses :: "(UUID, AddressRead) dict"
  allergies :: "(UUID, AllergyRead) dict"
  medications :: "(UUID, MedicationRead) dict"

text \<open>
  A handler takes the state and gives back what it returns or raises, with the state it
  leaves. A create handler also takes the clock readings its record construction makes:
  two for an Allergy or a Medication, one for an Address or a Person.
\<close>

subsection \<open>Addresses\<close>

definition create_address ::
  "AddressCreate \<Rightarrow> datetime \<Rightarrow> state \<Rightarrow> (error + AddressRead) \<times> state" where
  "create_address address t st =
     (if dict_contains (addresses st) (adc_id address)
      then (Inl (HTTPException 400 ''Address with this ID already exists''), st)
      else
        let st' = st\<lparr>addresses :=
                    dict_setitem (addresses st) (adc_id address) (AddressRead_of_create address t)\<rparr>
        in (dict_getitem (addresses st') (adc_id address), st'))"


definition get_address :: "UUID \<Rightarrow> state \<Rightarrow> (error + AddressRead) \<times> state" where
  "get_address address_id st =
     (if \<not> dict_contains (addresses st) address_id
      then (Inl (HTTPException 404 ''Address not found''), st)
      else (dict_getitem (addresses st) address_id, st))"


subsection \<open>Persons\<close>

text \<open>\<^verbatim>\<open>create_person\<close> builds the record and assigns it to its key; it has no test for
  a key that is present.\<close>

definition create_person ::
  "PersonCreate \<Rightarrow> datetime \<Rightarrow> state \<Rightarrow> (error + PersonRead) \<times> state" where
  "create_person person t st =
     (let person_read = PersonRead_of_create person t;
          st' = st\<lparr>persons := dict_setitem (persons st) (p_id person_read) person_read\<rparr>
      in (Inr person_read, st'))"

text \<open>\<^verbatim>\<open>any(addr.city == city for addr in p.addresses)\<close> is \<open>list_ex\<close>;
  \<^verbatim>\<open>str(p.birth_date) == birth_date\<close> has no test for \<^verbatim>\<open>None\<close> before it.\<close>

definition list_persons ::
  "string option \<Rightarrow> string option \<Rightarrow> string option \<Rightarrow> string option \<Rightarrow> string option
     \<Rightarrow> string option \<Rightarrow> string option \<Rightarrow> string option \<Rightarrow> state \<Rightarrow> PersonRead list" where
  "list_persons uni first_name last_name email phone birth_date city country st =
     (let results = dict_values (persons st);
          results = filter_if_given uni (\<lambda>v p. p_uni p = Some v) results;
          results = filter_if_given first_name (\<lambda>v p. p_first_name p = Some v) results;
          results = filter_if_given last_name (\<lambda>v p. p_last_name p = Some v) results;
          results = filter_if_given email (\<lambda>v p. p_email p = Some v) results;
          results = filter_if_given phone (\<lambda>v p. p_phone p = Some v) results;
          results = filter_if_given birth_date (\<lambda>v p. str_opt_date (p_birth_date p) = v) results;
          results = filter_if_given city
                      (\<lambda>v p. list_ex (\<lambda>addr. ea_city addr = Some v) (p_addresses p)) results;
          results = filter_if_given country
                      (\<lambda>v p. list_ex (\<lambda>addr. ea_country addr = Some v) (p_addresses p)) results
      in results)"

definition get_person :: "UUID \<Rightarrow> state \<Rightarrow> (error + PersonRead) \<times> state" where
  "get_person person_id st =
     (if \<not> dict_contains (persons st) person_id
      then (Inl (HTTPException 404 ''Person not found''), st)
      else (dict_getitem (persons st) person_id, st))"


subsection \<open>Allergies\<close>

text \<open>
  \<^verbatim>\<open>getattr(allergy, "person_id", None) and allergy.person_id not in persons\<close>:
  \<^verbatim>\<open>person_id\<close> is a required \<^verbatim>\<open>UUID\<close> of \<^verbatim>\<open>AllergyBase\<close>, and a UUID is truthy, so
  the first conjunct is true of every payload.
\<close>

definition create_allergy ::
  "AllergyCreate \<Rightarrow> datetime \<Rightarrow> datetime \<Rightarrow> state \<Rightarrow> (error + AllergyRead) \<times> state" where
  "create_allergy allergy t1 t2 st =
     (if \<not> dict_contains (persons st) (ac_person_id allergy)
      then (Inl (HTTPException 400 ''person_id does not exist''), st)
      else if dict_contains (allergies st) (ac_id allergy)
      then (Inl (HTTPException 400 ''Allergy with this ID already exists''), st)
      else
        let st' = st\<lparr>allergies :=
                    dict_setitem (allergies st) (ac_id allergy) (AllergyRead_of_create allergy t1 t2)\<rparr>
        in (dict_getitem (allergies st') (ac_id allergy), st'))"

text \<open>\<^verbatim>\<open>(a.noted_date and str(a.noted_date) == noted_date)\<close>: a null date is falsy, a date
  is truthy.\<close>

definition date_is :: "string \<Rightarrow> date option \<Rightarrow> bool" where
  "date_is v x = (case x of None \<Rightarrow> False | Some d \<Rightarrow> str_date d = v)"

definition list_allergies ::
  "UUID option \<Rightarrow> string option \<Rightarrow> string option \<Rightarrow> string option \<Rightarrow> string option
     \<Rightarrow> state \<Rightarrow> AllergyRead list" where
  "list_allergies person_id allergen allergy_type severity noted_date st =
     (let results = dict_values (allergies st);
          results = filter_if_given person_id (\<lambda>v a. a_person_id a = v) results;
          results = filter_if_given allergen (\<lambda>v a. a_allergen a = v) results;
          results = filter_if_given allergy_type (\<lambda>v a. AllergyType_str (a_allergy_type a) = v) results;
          results = filter_if_given severity (\<lambda>v a. AllergySeverity_str (a_severity a) = v) results;
          results = filter_if_given noted_date (\<lambda>v a. date_is v (a_noted_date a)) results
      in results)"

definition get_allergy :: "UUID \<Rightarrow> state \<Rightarrow> (error + AllergyRead) \<times> state" where
  "get_allergy allergy_id st =
     (if \<not> dict_contains (allergies st) allergy_id
      then (Inl (HTTPException 404 ''Allergy not found''), st)
      else (dict_getitem (allergies st) allergy_id, st))"

definition update_allergy ::
  "UUID \<Rightarrow> AllergyUpdate \<Rightarrow> state \<Rightarrow> (error + AllergyRead) \<times> state" where
  "update_allergy allergy_id update st =
     (if \<not> dict_contains (allergies st) allergy_id
      then (Inl (HTTPException 404 ''Allergy not found''), st)
      else
        (case dict_getitem (allergies st) allergy_id of
           Inl e \<Rightarrow> (Inl e, st)
         | Inr stored \<Rightarrow>
             (case AllergyRead_merge stored update of
                None \<Rightarrow> (Inl ValidationError, st)
              | Some r \<Rightarrow>
                  let st' = st\<lparr>allergies := dict_setitem (allergies st) allergy_id r\<rparr>
                  in (dict_getitem (allergies st') allergy_id, st'))))"

subsection \<open>Medications\<close>

definition create_medication ::
  "MedicationCreate \<Rightarrow> datetime \<Rightarrow> datetime \<Rightarrow> state \<Rightarrow> (error + MedicationRead) \<times> state" where
  "create_medication med t1 t2 st =
     (if \<not> dict_contains (persons st) (mc_person_id med)
      then (Inl (HTTPException 400 ''person_id does not exist''), st)
      else if dict_contains (medications st) (mc_id med)
      then (Inl (HTTPException 400 ''Medication with this ID already exists''), st)
      else
        let st' = st\<lparr>medications :=
                    dict_setitem (medications st) (mc_id med) (MedicationRead_of_create med t1 t2)\<rparr>
        in (dict_getitem (medications st') (mc_id med), st'))"


definition get_medication :: "UUID \<Rightarrow> state \<Rightarrow> (error + MedicationRead) \<times> state" where
  "get_medication medication_id st =
     (if \<not> dict_contains (medications st) medication_id
      then (Inl (HTTPException 404 ''Medication not found''), st)
      else (dict_getitem (medications st) medication_id, st))"

definition update_medication ::
  "UUID \<Rightarrow> MedicationUpdate \<Rightarrow> state \<Rightarrow> (error + MedicationRead) \<times> state" where
  "update_medication medication_id update st =
     (if \<not> dict_contains (medications st) medication_id
      then (Inl (HTTPException 404 ''Medication not found''), st)
      else
        (case dict_getitem (medications st) medication_id of
           Inl e \<Rightarrow> (Inl e, st)
         | Inr stored \<Rightarrow>
             (case MedicationRead_merge stored update of
                None \<Rightarrow> (Inl ValidationError, st)
              | Some r \<Rightarrow>
                  let st' = st\<lparr>medications := dict_setitem (medications st) medication_id r\<rparr>
                  in (dict_getitem (medications st') medication_id, st'))))"

section \<open>Sequences of requests\<close>





section \<open>The filter rule and the order rule in the spec's words\<close>

text \<open>
  One optional filter parameter, as the spec words it: a parameter that is not supplied
  puts no constraint on the record, a supplied one must hold of it.
\<close>

definition given :: "'a option \<Rightarrow> ('a \<Rightarrow> bool) \<Rightarrow> bool" where
  "given x P = (case x of None \<Rightarrow> True | Some v \<Rightarrow> P v)"

text \<open>
  What one request may do to the identifiers of a store, listed in store order: leave
  them as they are, or put one identifier that was not there at the end.
\<close>

definition grows :: "'k list \<Rightarrow> 'k list \<Rightarrow> bool" where
  "grows ks ks' = (ks' = ks \<or> (\<exists>k. k \<notin> set ks \<and> ks' = ks @ [k]))"

section \<open>The merge rule in the spec's words\<close>


section \<open>A small store, for running the handlers\<close>

text \<open>Update payloads with no field set (\<^verbatim>\<open>AllergyUpdate()\<close> and the like), and one record of
  each kind.\<close>

definition no_AllergyUpdate :: AllergyUpdate where
  "no_AllergyUpdate = \<lparr> au_allergen = None, au_allergy_type = None, au_reaction = None,
     au_severity = None, au_noted_date = None \<rparr>"

definition no_MedicationUpdate :: MedicationUpdate where
  "no_MedicationUpdate = \<lparr> mu_name = None, mu_dose = None, mu_dose_unit = None, mu_frequency = None,
     mu_instructions = None, mu_start_date = None, mu_end_date = None, mu_is_current = None \<rparr>"

definition no_AddressUpdate :: AddressUpdate where
  "no_AddressUpdate = \<lparr> adu_street = None, adu_city = None, adu_state = None,
     adu_postal_code = None, adu_country = None \<rparr>"

definition no_PersonUpdate :: PersonUpdate where
  "no_PersonUpdate = \<lparr> pu_uni = None, pu_first_name = None, pu_last_name = None, pu_email = None,
     pu_phone = None, pu_birth_date = None, pu_addresses = None \<rparr>"

definition ea_nyc :: EmbeddedAddress where
  "ea_nyc = \<lparr> ea_street = Some ''116th St'', ea_city = Some ''NYC'', ea_state = Some ''NY'',
     ea_postal_code = None, ea_country = Some ''USA'' \<rparr>"

definition ea_sf :: EmbeddedAddress where
  "ea_sf = \<lparr> ea_street = Some ''Market St'', ea_city = Some ''SF'', ea_state = Some ''CA'',
     ea_postal_code = None, ea_country = Some ''USA'' \<rparr>"

definition ada :: PersonRead where
  "ada = \<lparr> p_id = 1, p_uni = Some ''abc1234'', p_first_name = Some ''Ada'',
     p_last_name = Some ''Lovelace'', p_email = Some ''ada@example.com'', p_phone = None,
     p_birth_date = None, p_addresses = [ea_nyc, ea_sf], p_created_at = 10, p_updated_at = 10 \<rparr>"

definition home :: AddressRead where
  "home = \<lparr> ad_id = 5, ad_street = Some ''116th St'', ad_city = Some ''NYC'', ad_state = Some ''NY'',
     ad_postal_code = Some ''10027'', ad_country = Some ''USA'', ad_created_at = 20, ad_updated_at = 20 \<rparr>"

definition peanuts :: AllergyRead where
  "peanuts = \<lparr> a_id = 7, a_person_id = 1, a_allergen = ''Peanuts'', a_allergy_type = Food,
     a_reaction = Some ''Hives, swelling'', a_severity = Severe, a_noted_date = Some (Date 2023 5 20),
     a_created_at = 100, a_updated_at = 101 \<rparr>"

definition loratadine :: MedicationRead where
  "loratadine = \<lparr> m_id = 9, m_person_id = 1, m_name = ''Loratadine'', m_dose = Some 10,
     m_dose_unit = Some Mg, m_frequency = Once_daily, m_instructions = None,
     m_start_date = Some (Date 2025 3 1), m_end_date = None, m_is_current = True,
     m_created_at = 200, m_updated_at = 200 \<rparr>"

definition demo :: state where
  "demo = \<lparr> persons = [(1, ada)], addresses = [(5, home)], allergies = [(7, peanuts)],
     medications = [(9, loratadine)] \<rparr>"

text \<open>Create payloads: a new record of each kind, with identifiers the store does not
  hold yet; person 1 is in the store, person 2 is not.\<close>

definition new_person :: PersonCreate where
  "new_person = \<lparr> pc_id = 2, pc_uni = Some ''xyz9876'', pc_first_name = Some ''Grace'',
     pc_last_name = Some ''Hopper'', pc_email = Some ''grace@example.com'', pc_phone = None,
     pc_birth_date = Some (Date 1906 12 9), pc_addresses = [] \<rparr>"

definition new_address :: AddressCreate where
  "new_address = \<lparr> adc_id = 6, adc_street = Some ''Market St'', adc_city = Some ''SF'',
     adc_state = Some ''CA'', adc_postal_code = None, adc_country = Some ''USA'' \<rparr>"

definition new_allergy :: AllergyCreate where
  "new_allergy = \<lparr> ac_id = 8, ac_person_id = 1, ac_allergen = ''Penicillin'', ac_allergy_type = Drug,
     ac_reaction = None, ac_severity = Moderate, ac_noted_date = None \<rparr>"

definition new_medication :: MedicationCreate where
  "new_medication = \<lparr> mc_id = 10, mc_person_id = 1, mc_name = ''Amoxicillin'', mc_dose = Some 500,
     mc_dose_unit = Some Mg, mc_frequency = Twice_daily, mc_instructions = Some ''Take with food.'',
     mc_start_date = Some (Date 2025 2 1), mc_end_date = Some (Date 2025 2 10), mc_is_current = False \<rparr>"

lemmas new_defs = new_person_def new_address_def new_allergy_def new_medication_def
  PersonRead_of_create_def AddressRead_of_create_def AllergyRead_of_create_def
  MedicationRead_of_create_def

lemmas demo_defs = demo_def ada_def home_def peanuts_def loratadine_def ea_nyc_def ea_sf_def
  no_AllergyUpdate_def no_MedicationUpdate_def no_AddressUpdate_def no_PersonUpdate_def

lemmas dict_defs = dict_contains_def dict_keys_def dict_values_def dict_getitem_def dict_update1_def
  filter_if_given_def

section \<open>Facts about the stores\<close>

lemma dict_contains_map_of: "dict_contains d k \<longleftrightarrow> map_of d k \<noteq> None"
  by (simp add: dict_contains_def dict_keys_def map_of_eq_None_iff)

lemma map_of_dict_setitem: "map_of (dict_setitem d k v) k' = (if k' = k then Some v else map_of d k')"
  by (induction d k v rule: dict_setitem.induct) auto

lemma dict_getitem_setitem: "dict_getitem (dict_setitem d k v) k = Inr v"
  by (simp add: dict_getitem_def map_of_dict_setitem)

lemma dict_keys_setitem:
  "dict_keys (dict_setitem d k v) = (if dict_contains d k then dict_keys d else dict_keys d @ [k])"
  by (induction d k v rule: dict_setitem.induct) (auto simp: dict_keys_def dict_contains_def)

lemma dict_getitem_Inr: "dict_contains d k \<Longrightarrow> \<exists>v. dict_getitem d k = Inr v"
  by (auto simp: dict_contains_map_of dict_getitem_def)

lemma dict_values_setitem_length: "length (dict_values (dict_setitem d k v)) \<ge> length (dict_values d)"
  by (induction d k v rule: dict_setitem.induct) (auto simp: dict_values_def)

section \<open>Facts about the update handlers\<close>

text \<open>An update succeeds exactly when the key is present and the merged record passes
  validation; the merged record then replaces the stored one.\<close>

lemma update_allergy_Inr:
  "update_allergy aid u st = (Inr r, st') \<longleftrightarrow>
     (\<exists>stored. dict_getitem (allergies st) aid = Inr stored \<and> AllergyRead_merge stored u = Some r
        \<and> st' = st\<lparr>allergies := dict_setitem (allergies st) aid r\<rparr>)"
  by (auto simp: update_allergy_def Let_def map_of_dict_setitem dict_contains_map_of dict_getitem_def
        split: option.splits sum.splits)

lemma update_medication_Inr:
  "update_medication mid u st = (Inr r, st') \<longleftrightarrow>
     (\<exists>stored. dict_getitem (medications st) mid = Inr stored \<and> MedicationRead_merge stored u = Some r
        \<and> st' = st\<lparr>medications := dict_setitem (medications st) mid r\<rparr>)"
  by (auto simp: update_medication_def Let_def map_of_dict_setitem dict_contains_map_of dict_getitem_def
        split: option.splits sum.splits)



lemma AllergyRead_merge_fixed:
  "AllergyRead_merge stored u = Some r \<Longrightarrow>
     a_id r = a_id stored \<and> a_person_id r = a_person_id stored \<and> a_created_at r = a_created_at stored
     \<and> a_updated_at r = a_updated_at stored"
  by (auto simp: AllergyRead_merge_def split: option.splits)

lemma MedicationRead_merge_fixed:
  "MedicationRead_merge stored u = Some r \<Longrightarrow>
     m_id r = m_id stored \<and> m_person_id r = m_person_id stored \<and> m_created_at r = m_created_at stored
     \<and> m_updated_at r = m_updated_at stored"
  by (auto simp: MedicationRead_merge_def split: option.splits)



section \<open>The fields no update can reach\<close>

text \<open>
  C9. For every stored Allergy or Medication and every update payload, a successful
  update gives a merged record whose \<^verbatim>\<open>id\<close>, \<^verbatim>\<open>person_id\<close> and \<^verbatim>\<open>created_at\<close> are those
  of the record stored before, and that merged record is what the store then holds under
  the identifier. (\<^verbatim>\<open>AllergyUpdate\<close> and \<^verbatim>\<open>MedicationUpdate\<close> have no such fields, so the
  payload types here have none either.)
\<close>

theorem update_keeps_id_owner_created:
  "(dict_getitem (allergies st) aid = Inr a \<and> update_allergy aid au st = (Inr a', st1) \<longrightarrow>
      a_id a' = a_id a \<and> a_person_id a' = a_person_id a \<and> a_created_at a' = a_created_at a
      \<and> dict_getitem (allergies st1) aid = Inr a')
   \<and> (dict_getitem (medications st) mid = Inr m \<and> update_medication mid mu st = (Inr m', st2) \<longrightarrow>
      m_id m' = m_id m \<and> m_person_id m' = m_person_id m \<and> m_created_at m' = m_created_at m
      \<and> dict_getitem (medications st2) mid = Inr m')"
proof (intro conjI impI)
  assume "dict_getitem (allergies st) aid = Inr a \<and> update_allergy aid au st = (Inr a', st1)"
  then have "AllergyRead_merge a au = Some a'"
    and st1: "st1 = st\<lparr>allergies := dict_setitem (allergies st) aid a'\<rparr>"
    by (auto simp: update_allergy_Inr)
  then show "a_id a' = a_id a" "a_person_id a' = a_person_id a" "a_created_at a' = a_created_at a"
    using AllergyRead_merge_fixed by blast+
  show "dict_getitem (allergies st1) aid = Inr a'"
    by (simp add: st1 dict_getitem_setitem)
next
  assume "dict_getitem (medications st) mid = Inr m \<and> update_medication mid mu st = (Inr m', st2)"
  then have "MedicationRead_merge m mu = Some m'"
    and st2: "st2 = st\<lparr>medications := dict_setitem (medications st) mid m'\<rparr>"
    by (auto simp: update_medication_Inr)
  then show "m_id m' = m_id m" "m_person_id m' = m_person_id m" "m_created_at m' = m_created_at m"
    using MedicationRead_merge_fixed by blast+
  show "dict_getitem (medications st2) mid = Inr m'"
    by (simp add: st2 dict_getitem_setitem)
qed

theorem update_keeps_id_owner_created_witness:
  "update_allergy 7 (no_AllergyUpdate\<lparr>au_severity := Some (Some Mild)\<rparr>) demo
     = (Inr (peanuts\<lparr>a_severity := Mild\<rparr>), demo\<lparr>allergies := [(7, peanuts\<lparr>a_severity := Mild\<rparr>)]\<rparr>)
   \<and> a_id (peanuts\<lparr>a_severity := Mild\<rparr>) = 7
   \<and> a_person_id (peanuts\<lparr>a_severity := Mild\<rparr>) = 1
   \<and> a_created_at (peanuts\<lparr>a_severity := Mild\<rparr>) = 100
   \<and> update_medication 9 (no_MedicationUpdate\<lparr>mu_is_current := Some (Some False)\<rparr>) demo
     = (Inr (loratadine\<lparr>m_is_current := False\<rparr>),
        demo\<lparr>medications := [(9, loratadine\<lparr>m_is_current := False\<rparr>)]\<rparr>)
   \<and> m_id (loratadine\<lparr>m_is_current := False\<rparr>) = 9
   \<and> m_person_id (loratadine\<lparr>m_is_current := False\<rparr>) = 1
   \<and> m_created_at (loratadine\<lparr>m_is_current := False\<rparr>) = 200"
proof -
  have a: "dict_getitem (allergies demo) 7 = Inr peanuts
      \<and> update_allergy 7 (no_AllergyUpdate\<lparr>au_severity := Some (Some Mild)\<rparr>) demo
        = (Inr (peanuts\<lparr>a_severity := Mild\<rparr>), demo\<lparr>allergies := [(7, peanuts\<lparr>a_severity := Mild\<rparr>)]\<rparr>)"
    by (simp add: update_allergy_def AllergyRead_merge_def Let_def dict_defs demo_defs)
  have m: "dict_getitem (medications demo) 9 = Inr loratadine
      \<and> update_medication 9 (no_MedicationUpdate\<lparr>mu_is_current := Some (Some False)\<rparr>) demo
        = (Inr (loratadine\<lparr>m_is_current := False\<rparr>),
           demo\<lparr>medications := [(9, loratadine\<lparr>m_is_current := False\<rparr>)]\<rparr>)"
    by (simp add: update_medication_def MedicationRead_merge_def Let_def dict_defs demo_defs)
  from a m update_keeps_id_owner_created
    [of demo 7 peanuts "no_AllergyUpdate\<lparr>au_severity := Some (Some Mild)\<rparr>"
        "peanuts\<lparr>a_severity := Mild\<rparr>" "demo\<lparr>allergies := [(7, peanuts\<lparr>a_severity := Mild\<rparr>)]\<rparr>"
        9 loratadine "no_MedicationUpdate\<lparr>mu_is_current := Some (Some False)\<rparr>"
        "loratadine\<lparr>m_is_current := False\<rparr>"
        "demo\<lparr>medications := [(9, loratadine\<lparr>m_is_current := False\<rparr>)]\<rparr>"]
  show ?thesis
    by (simp add: peanuts_def loratadine_def)
qed

section \<open>The merged fields\<close>




section \<open>Null in a field that cannot be null\<close>

lemma AllergyRead_merge_None_iff:
  "AllergyRead_merge stored u = None \<longleftrightarrow>
     au_allergen u = Some None \<or> au_allergy_type u = Some None \<or> au_severity u = Some None"
proof (cases "dict_update1 (Some (a_allergen stored)) (au_allergen u)")
  case None
  then show ?thesis
    by (cases "au_allergen u") (simp_all add: AllergyRead_merge_def dict_update1_def)
next
  case al: (Some allergen)
  then have n1: "au_allergen u \<noteq> Some None"
    by (auto simp: dict_update1_def)
  show ?thesis
  proof (cases "dict_update1 (Some (a_allergy_type stored)) (au_allergy_type u)")
    case None
    then show ?thesis using al
      by (cases "au_allergy_type u") (simp_all add: AllergyRead_merge_def dict_update1_def)
  next
    case ty: (Some allergy_type)
    then have n2: "au_allergy_type u \<noteq> Some None"
      by (auto simp: dict_update1_def)
    show ?thesis
    proof (cases "dict_update1 (Some (a_severity stored)) (au_severity u)")
      case None
      then show ?thesis using al ty
        by (cases "au_severity u") (simp_all add: AllergyRead_merge_def dict_update1_def)
    next
      case sv: (Some severity)
      then have n3: "au_severity u \<noteq> Some None"
        by (auto simp: dict_update1_def)
      from al ty sv n1 n2 n3 show ?thesis
        by (simp add: AllergyRead_merge_def)
    qed
  qed
qed

text \<open>
  C10. For every stored Allergy, a payload that sets \<^verbatim>\<open>allergen\<close>, \<^verbatim>\<open>allergy_type\<close> or
  \<^verbatim>\<open>severity\<close> to null is a value of the payload type (every field of \<^verbatim>\<open>AllergyUpdate\<close>
  is \<^verbatim>\<open>Optional\<close>), the construction of the merged record fails validation, and the
  handler leaves the whole state, the stored record included, as it was.
\<close>

theorem null_in_required_field_fails_unchanged:
  "dict_contains (allergies st) aid \<and>
     (au_allergen u = Some None \<or> au_allergy_type u = Some None \<or> au_severity u = Some None)
   \<longrightarrow> update_allergy aid u st = (Inl ValidationError, st)"
proof
  assume h: "dict_contains (allergies st) aid \<and>
     (au_allergen u = Some None \<or> au_allergy_type u = Some None \<or> au_severity u = Some None)"
  then have c: "dict_contains (allergies st) aid"
    by (rule conjunct1)
  from dict_getitem_Inr [OF c] obtain stored where g: "dict_getitem (allergies st) aid = Inr stored"
    by (rule exE)
  from h have "au_allergen u = Some None \<or> au_allergy_type u = Some None \<or> au_severity u = Some None"
    by (rule conjunct2)
  then have n: "AllergyRead_merge stored u = None"
    by (simp only: AllergyRead_merge_None_iff)
  show "update_allergy aid u st = (Inl ValidationError, st)"
    by (simp add: update_allergy_def c g n)
qed

theorem null_in_required_field_fails_unchanged_witness:
  "update_allergy 7 (no_AllergyUpdate\<lparr>au_severity := Some None\<rparr>) demo = (Inl ValidationError, demo)
   \<and> update_allergy 7 (no_AllergyUpdate\<lparr>au_allergy_type := Some None\<rparr>) demo = (Inl ValidationError, demo)
   \<and> get_allergy 7 demo = (Inr peanuts, demo)"
proof -
  have c: "dict_contains (allergies demo) 7"
    by (simp add: dict_defs demo_def)
  have g: "get_allergy 7 demo = (Inr peanuts, demo)"
    by (simp add: get_allergy_def dict_defs demo_def)
  have r1: "update_allergy 7 (no_AllergyUpdate\<lparr>au_severity := Some None\<rparr>) demo = (Inl ValidationError, demo)"
    using null_in_required_field_fails_unchanged [of demo 7 "no_AllergyUpdate\<lparr>au_severity := Some None\<rparr>"] c
    by simp
  have r2: "update_allergy 7 (no_AllergyUpdate\<lparr>au_allergy_type := Some None\<rparr>) demo = (Inl ValidationError, demo)"
    using null_in_required_field_fails_unchanged [of demo 7 "no_AllergyUpdate\<lparr>au_allergy_type := Some None\<rparr>"] c
    by simp
  show ?thesis
    by (intro conjI r1 r2 g)
qed

section \<open>The create handlers, case by case\<close>

lemma create_allergy_cases:
  "create_allergy a t1 t2 st =
     (if \<not> dict_contains (persons st) (ac_person_id a)
      then (Inl (HTTPException 400 ''person_id does not exist''), st)
      else if dict_contains (allergies st) (ac_id a)
      then (Inl (HTTPException 400 ''Allergy with this ID already exists''), st)
      else (Inr (AllergyRead_of_create a t1 t2),
            st\<lparr>allergies := dict_setitem (allergies st) (ac_id a) (AllergyRead_of_create a t1 t2)\<rparr>))"
  by (simp add: create_allergy_def Let_def dict_getitem_setitem)

lemma create_medication_cases:
  "create_medication m t1 t2 st =
     (if \<not> dict_contains (persons st) (mc_person_id m)
      then (Inl (HTTPException 400 ''person_id does not exist''), st)
      else if dict_contains (medications st) (mc_id m)
      then (Inl (HTTPException 400 ''Medication with this ID already exists''), st)
      else (Inr (MedicationRead_of_create m t1 t2),
            st\<lparr>medications := dict_setitem (medications st) (mc_id m) (MedicationRead_of_create m t1 t2)\<rparr>))"
  by (simp add: create_medication_def Let_def dict_getitem_setitem)

lemma create_address_cases:
  "create_address a t st =
     (if dict_contains (addresses st) (adc_id a)
      then (Inl (HTTPException 400 ''Address with this ID already exists''), st)
      else (Inr (AddressRead_of_create a t),
            st\<lparr>addresses := dict_setitem (addresses st) (adc_id a) (AddressRead_of_create a t)\<rparr>))"
  by (simp add: create_address_def Let_def dict_getitem_setitem)

lemma create_person_cases:
  "create_person p t st =
     (Inr (PersonRead_of_create p t),
      st\<lparr>persons := dict_setitem (persons st) (pc_id p) (PersonRead_of_create p t)\<rparr>)"
  by (simp add: create_person_def Let_def PersonRead_of_create_def)

text \<open>
  C4. A create of an Allergy or a Medication whose \<^verbatim>\<open>person_id\<close> is not a key of the
  Person store fails with status 400, detail \<^verbatim>\<open>person_id does not exist\<close>, and leaves
  the whole state as it was; when the \<^verbatim>\<open>person_id\<close> is a key of the Person store, the
  create never fails with that error.
\<close>

theorem owner_checked_at_create:
  "(\<not> dict_contains (persons st) (ac_person_id a) \<longrightarrow>
      create_allergy a t1 t2 st = (Inl (HTTPException 400 ''person_id does not exist''), st))
   \<and> (dict_contains (persons st) (ac_person_id a) \<longrightarrow>
      fst (create_allergy a t1 t2 st) \<noteq> Inl (HTTPException 400 ''person_id does not exist''))
   \<and> (\<not> dict_contains (persons st) (mc_person_id m) \<longrightarrow>
      create_medication m t3 t4 st = (Inl (HTTPException 400 ''person_id does not exist''), st))
   \<and> (dict_contains (persons st) (mc_person_id m) \<longrightarrow>
      fst (create_medication m t3 t4 st) \<noteq> Inl (HTTPException 400 ''person_id does not exist''))"
  by (simp add: create_allergy_cases create_medication_cases)

theorem owner_checked_at_create_witness:
  "create_allergy (new_allergy\<lparr>ac_person_id := 2\<rparr>) 300 301 demo
     = (Inl (HTTPException 400 ''person_id does not exist''), demo)
   \<and> create_medication (new_medication\<lparr>mc_person_id := 2\<rparr>) 300 301 demo
     = (Inl (HTTPException 400 ''person_id does not exist''), demo)
   \<and> fst (create_allergy new_allergy 300 301 demo) \<noteq> Inl (HTTPException 400 ''person_id does not exist'')
   \<and> fst (create_medication new_medication 300 301 demo) \<noteq> Inl (HTTPException 400 ''person_id does not exist'')
   \<and> fst (create_allergy new_allergy 300 301 demo) = Inr (AllergyRead_of_create new_allergy 300 301)"
proof -
  have n: "\<not> dict_contains (persons demo) (ac_person_id (new_allergy\<lparr>ac_person_id := 2\<rparr>))"
          "\<not> dict_contains (persons demo) (mc_person_id (new_medication\<lparr>mc_person_id := 2\<rparr>))"
    by (simp_all add: dict_defs demo_def)
  have y: "dict_contains (persons demo) (ac_person_id new_allergy)"
          "dict_contains (persons demo) (mc_person_id new_medication)"
    by (simp_all add: dict_defs demo_def new_allergy_def new_medication_def)
  have e: "fst (create_allergy new_allergy 300 301 demo) = Inr (AllergyRead_of_create new_allergy 300 301)"
    by (simp add: create_allergy_cases dict_defs demo_def new_allergy_def)
  from n y e
    owner_checked_at_create [of demo "new_allergy\<lparr>ac_person_id := 2\<rparr>" 300 301
       "new_medication\<lparr>mc_person_id := 2\<rparr>" 300 301]
    owner_checked_at_create [of demo new_allergy 300 301 new_medication 300 301]
  show ?thesis
    by simp
qed

section \<open>A create with an identifier the store already holds\<close>

text \<open>
  C1, as the claim states it, fails. \<^verbatim>\<open>create_person\<close> has no test for a key that is
  present: with person 1 in the store, a create whose record has identifier 1 succeeds and
  the store holds the new record in place of the old one. And \<^verbatim>\<open>create_allergy\<close> tests
  the owner first: with identifier 7 present and an owner that does not resolve, the error
  is the owner's, not the conflict's.
\<close>

theorem duplicate_id_counterexample:
  "dict_contains (persons demo) (pc_id (new_person\<lparr>pc_id := 1\<rparr>))
   \<and> fst (create_person (new_person\<lparr>pc_id := 1\<rparr>) 300 demo)
       = Inr (PersonRead_of_create (new_person\<lparr>pc_id := 1\<rparr>) 300)
   \<and> dict_getitem (persons demo) 1 = Inr ada
   \<and> dict_getitem (persons (snd (create_person (new_person\<lparr>pc_id := 1\<rparr>) 300 demo))) 1
       = Inr (PersonRead_of_create (new_person\<lparr>pc_id := 1\<rparr>) 300)
   \<and> PersonRead_of_create (new_person\<lparr>pc_id := 1\<rparr>) 300 \<noteq> ada
   \<and> dict_contains (allergies demo) (ac_id (new_allergy\<lparr>ac_id := 7, ac_person_id := 2\<rparr>))
   \<and> create_allergy (new_allergy\<lparr>ac_id := 7, ac_person_id := 2\<rparr>) 300 301 demo
       = (Inl (HTTPException 400 ''person_id does not exist''), demo)
   \<and> HTTPException 400 ''person_id does not exist''
       \<noteq> HTTPException 400 ''Allergy with this ID already exists''"
  by (simp add: create_person_cases create_allergy_cases dict_defs demo_defs new_defs)

text \<open>
  C1, amended. For Address, Allergy and Medication, a create whose identifier is a key of
  the kind's store fails with status 400 and leaves the whole state as it was, the record
  stored under the identifier included. The detail is the conflict's, \<^verbatim>\<open>... with this ID
  already exists\<close>, for an Address always and for an Allergy or a Medication when the owner
  resolves; when the owner does not resolve it is \<^verbatim>\<open>person_id does not exist\<close>.
\<close>

theorem duplicate_id_rejected:
  "(dict_contains (addresses st) (adc_id ad) \<longrightarrow>
      create_address ad t1 st = (Inl (HTTPException 400 ''Address with this ID already exists''), st))
   \<and> (dict_contains (allergies st) (ac_id a) \<longrightarrow>
      create_allergy a t3 t4 st =
        (Inl (HTTPException 400 (if dict_contains (persons st) (ac_person_id a)
                then ''Allergy with this ID already exists'' else ''person_id does not exist'')), st))
   \<and> (dict_contains (medications st) (mc_id m) \<longrightarrow>
      create_medication m t5 t6 st =
        (Inl (HTTPException 400 (if dict_contains (persons st) (mc_person_id m)
                then ''Medication with this ID already exists'' else ''person_id does not exist'')), st))"
  by (simp add: create_address_cases create_allergy_cases create_medication_cases)

theorem duplicate_id_rejected_witness:
  "create_address (new_address\<lparr>adc_id := 5\<rparr>) 300 demo
     = (Inl (HTTPException 400 ''Address with this ID already exists''), demo)
   \<and> create_allergy (new_allergy\<lparr>ac_id := 7\<rparr>) 300 301 demo
     = (Inl (HTTPException 400 ''Allergy with this ID already exists''), demo)
   \<and> create_medication (new_medication\<lparr>mc_id := 9\<rparr>) 300 301 demo
     = (Inl (HTTPException 400 ''Medication with this ID already exists''), demo)
   \<and> get_address 5 demo = (Inr home, demo)"
proof -
  have c: "dict_contains (addresses demo) (adc_id (new_address\<lparr>adc_id := 5\<rparr>))"
          "dict_contains (allergies demo) (ac_id (new_allergy\<lparr>ac_id := 7\<rparr>))"
          "dict_contains (medications demo) (mc_id (new_medication\<lparr>mc_id := 9\<rparr>))"
          "dict_contains (persons demo) (ac_person_id (new_allergy\<lparr>ac_id := 7\<rparr>))"
          "dict_contains (persons demo) (mc_person_id (new_medication\<lparr>mc_id := 9\<rparr>))"
    by (simp_all add: dict_defs demo_def new_defs)
  have g: "get_address 5 demo = (Inr home, demo)"
    by (simp add: get_address_def dict_defs demo_def)
  from c g duplicate_id_rejected [of demo "new_address\<lparr>adc_id := 5\<rparr>" 300
      "new_allergy\<lparr>ac_id := 7\<rparr>" 300 301 "new_medication\<lparr>mc_id := 9\<rparr>" 300 301]
  show ?thesis
    by simp
qed

section \<open>The tri-state merge\<close>










section \<open>Create, then read\<close>

text \<open>
  In the lemmas of this section \<open>t0\<close> is the time at which the create call began; the
  clock does not run backwards, so a reading made during the call is at or after \<open>t0\<close>,
  and a later reading is at or after an earlier one.
\<close>

lemma dict_contains_setitem:
  "dict_contains (dict_setitem d k v) k' \<longleftrightarrow> k' = k \<or> dict_contains d k'"
  by (simp add: dict_contains_map_of map_of_dict_setitem)

lemma create_allergy_round_trip:
  "dict_contains (persons st) (ac_person_id a) \<and> \<not> dict_contains (allergies st) (ac_id a) \<and> t0 \<le> t1 \<and> t1 \<le> t2 \<longrightarrow>
     (\<exists>r st'. create_allergy a t1 t2 st = (Inr r, st')
        \<and> get_allergy (ac_id a) st' = (Inr r, st')
        \<and> a_id r = ac_id a
        \<and> a_person_id r = ac_person_id a
        \<and> a_allergen r = ac_allergen a
        \<and> a_allergy_type r = ac_allergy_type a
        \<and> a_reaction r = ac_reaction a
        \<and> a_severity r = ac_severity a
        \<and> a_noted_date r = ac_noted_date a
        \<and> a_created_at r = t1 \<and> a_updated_at r = t2
        \<and> t0 \<le> a_created_at r \<and> a_created_at r \<le> a_updated_at r
        \<and> (a_created_at r = a_updated_at r) = (t1 = t2))"
proof
  assume h: "dict_contains (persons st) (ac_person_id a) \<and> \<not> dict_contains (allergies st) (ac_id a) \<and> t0 \<le> t1 \<and> t1 \<le> t2"
  let ?r = "AllergyRead_of_create a t1 t2"
  let ?st = "st\<lparr>allergies := dict_setitem (allergies st) (ac_id a) (AllergyRead_of_create a t1 t2)\<rparr>"
  from h have c: "create_allergy a t1 t2 st = (Inr ?r, ?st)"
    by (simp add: create_allergy_cases)
  have g: "get_allergy (ac_id a) ?st = (Inr ?r, ?st)"
    by (simp add: get_allergy_def dict_contains_setitem dict_getitem_setitem)
  have f: "a_id ?r = ac_id a
        \<and> a_person_id ?r = ac_person_id a
        \<and> a_allergen ?r = ac_allergen a
        \<and> a_allergy_type ?r = ac_allergy_type a
        \<and> a_reaction ?r = ac_reaction a
        \<and> a_severity ?r = ac_severity a
        \<and> a_noted_date ?r = ac_noted_date a"
    by (simp add: AllergyRead_of_create_def)
  from h have tm: "a_created_at ?r = t1 \<and> a_updated_at ?r = t2
        \<and> t0 \<le> a_created_at ?r \<and> a_created_at ?r \<le> a_updated_at ?r
        \<and> (a_created_at ?r = a_updated_at ?r) = (t1 = t2)"
    by (simp add: AllergyRead_of_create_def)
  from c g f tm show "\<exists>r st'. create_allergy a t1 t2 st = (Inr r, st')
        \<and> get_allergy (ac_id a) st' = (Inr r, st')
        \<and> a_id r = ac_id a
        \<and> a_person_id r = ac_person_id a
        \<and> a_allergen r = ac_allergen a
        \<and> a_allergy_type r = ac_allergy_type a
        \<and> a_reaction r = ac_reaction a
        \<and> a_severity r = ac_severity a
        \<and> a_noted_date r = ac_noted_date a
        \<and> a_created_at r = t1 \<and> a_updated_at r = t2
        \<and> t0 \<le> a_created_at r \<and> a_created_at r \<le> a_updated_at r
        \<and> (a_created_at r = a_updated_at r) = (t1 = t2)"
    by (intro exI [of _ ?r] exI [of _ ?st]) simp
qed

lemma create_medication_round_trip:
  "dict_contains (persons st) (mc_person_id m) \<and> \<not> dict_contains (medications st) (mc_id m) \<and> t0 \<le> t1 \<and> t1 \<le> t2 \<longrightarrow>
     (\<exists>r st'. create_medication m t1 t2 st = (Inr r, st')
        \<and> get_medication (mc_id m) st' = (Inr r, st')
        \<and> m_id r = mc_id m
        \<and> m_person_id r = mc_person_id m
        \<and> m_name r = mc_name m
        \<and> m_dose r = mc_dose m
        \<and> m_dose_unit r = mc_dose_unit m
        \<and> m_frequency r = mc_frequency m
        \<and> m_instructions r = mc_instructions m
        \<and> m_start_date r = mc_start_date m
        \<and> m_end_date r = mc_end_date m
        \<and> m_is_current r = mc_is_current m
        \<and> m_created_at r = t1 \<and> m_updated_at r = t2
        \<and> t0 \<le> m_created_at r \<and> m_created_at r \<le> m_updated_at r
        \<and> (m_created_at r = m_updated_at r) = (t1 = t2))"
proof
  assume h: "dict_contains (persons st) (mc_person_id m) \<and> \<not> dict_contains (medications st) (mc_id m) \<and> t0 \<le> t1 \<and> t1 \<le> t2"
  let ?r = "MedicationRead_of_create m t1 t2"
  let ?st = "st\<lparr>medications := dict_setitem (medications st) (mc_id m) (MedicationRead_of_create m t1 t2)\<rparr>"
  from h have c: "create_medication m t1 t2 st = (Inr ?r, ?st)"
    by (simp add: create_medication_cases)
  have g: "get_medication (mc_id m) ?st = (Inr ?r, ?st)"
    by (simp add: get_medication_def dict_contains_setitem dict_getitem_setitem)
  have f: "m_id ?r = mc_id m
        \<and> m_person_id ?r = mc_person_id m
        \<and> m_name ?r = mc_name m
        \<and> m_dose ?r = mc_dose m
        \<and> m_dose_unit ?r = mc_dose_unit m
        \<and> m_frequency ?r = mc_frequency m
        \<and> m_instructions ?r = mc_instructions m
        \<and> m_start_date ?r = mc_start_date m
        \<and> m_end_date ?r = mc_end_date m
        \<and> m_is_current ?r = mc_is_current m"
    by (simp add: MedicationRead_of_create_def)
  from h have tm: "m_created_at ?r = t1 \<and> m_updated_at ?r = t2
        \<and> t0 \<le> m_created_at ?r \<and> m_created_at ?r \<le> m_updated_at ?r
        \<and> (m_created_at ?r = m_updated_at ?r) = (t1 = t2)"
    by (simp add: MedicationRead_of_create_def)
  from c g f tm show "\<exists>r st'. create_medication m t1 t2 st = (Inr r, st')
        \<and> get_medication (mc_id m) st' = (Inr r, st')
        \<and> m_id r = mc_id m
        \<and> m_person_id r = mc_person_id m
        \<and> m_name r = mc_name m
        \<and> m_dose r = mc_dose m
        \<and> m_dose_unit r = mc_dose_unit m
        \<and> m_frequency r = mc_frequency m
        \<and> m_instructions r = mc_instructions m
        \<and> m_start_date r = mc_start_date m
        \<and> m_end_date r = mc_end_date m
        \<and> m_is_current r = mc_is_current m
        \<and> m_created_at r = t1 \<and> m_updated_at r = t2
        \<and> t0 \<le> m_created_at r \<and> m_created_at r \<le> m_updated_at r
        \<and> (m_created_at r = m_updated_at r) = (t1 = t2)"
    by (intro exI [of _ ?r] exI [of _ ?st]) simp
qed

lemma create_address_round_trip:
  "\<not> dict_contains (addresses st) (adc_id ad) \<and> t0 \<le> t1 \<longrightarrow>
     (\<exists>r st'. create_address ad t1 st = (Inr r, st')
        \<and> get_address (adc_id ad) st' = (Inr r, st')
        \<and> ad_id r = adc_id ad
        \<and> ad_street r = adc_street ad
        \<and> ad_city r = adc_city ad
        \<and> ad_state r = adc_state ad
        \<and> ad_postal_code r = adc_postal_code ad
        \<and> ad_country r = adc_country ad
        \<and> ad_created_at r = t1 \<and> ad_updated_at r = t1
        \<and> t0 \<le> ad_created_at r \<and> ad_created_at r = ad_updated_at r)"
proof
  assume h: "\<not> dict_contains (addresses st) (adc_id ad) \<and> t0 \<le> t1"
  let ?r = "AddressRead_of_create ad t1"
  let ?st = "st\<lparr>addresses := dict_setitem (addresses st) (adc_id ad) (AddressRead_of_create ad t1)\<rparr>"
  from h have c: "create_address ad t1 st = (Inr ?r, ?st)"
    by (simp add: create_address_cases)
  have g: "get_address (adc_id ad) ?st = (Inr ?r, ?st)"
    by (simp add: get_address_def dict_contains_setitem dict_getitem_setitem)
  have f: "ad_id ?r = adc_id ad
        \<and> ad_street ?r = adc_street ad
        \<and> ad_city ?r = adc_city ad
        \<and> ad_state ?r = adc_state ad
        \<and> ad_postal_code ?r = adc_postal_code ad
        \<and> ad_country ?r = adc_country ad"
    by (simp add: AddressRead_of_create_def)
  from h have tm: "ad_created_at ?r = t1 \<and> ad_updated_at ?r = t1
        \<and> t0 \<le> ad_created_at ?r \<and> ad_created_at ?r = ad_updated_at ?r"
    by (simp add: AddressRead_of_create_def)
  from c g f tm show "\<exists>r st'. create_address ad t1 st = (Inr r, st')
        \<and> get_address (adc_id ad) st' = (Inr r, st')
        \<and> ad_id r = adc_id ad
        \<and> ad_street r = adc_street ad
        \<and> ad_city r = adc_city ad
        \<and> ad_state r = adc_state ad
        \<and> ad_postal_code r = adc_postal_code ad
        \<and> ad_country r = adc_country ad
        \<and> ad_created_at r = t1 \<and> ad_updated_at r = t1
        \<and> t0 \<le> ad_created_at r \<and> ad_created_at r = ad_updated_at r"
    by (intro exI [of _ ?r] exI [of _ ?st]) simp
qed

lemma create_person_round_trip:
  "t0 \<le> t1 \<longrightarrow>
     (\<exists>r st'. create_person p t1 st = (Inr r, st')
        \<and> get_person (pc_id p) st' = (Inr r, st')
        \<and> p_id r = pc_id p
        \<and> p_uni r = pc_uni p
        \<and> p_first_name r = pc_first_name p
        \<and> p_last_name r = pc_last_name p
        \<and> p_email r = pc_email p
        \<and> p_phone r = pc_phone p
        \<and> p_birth_date r = pc_birth_date p
        \<and> p_addresses r = pc_addresses p
        \<and> p_created_at r = t1 \<and> p_updated_at r = t1
        \<and> t0 \<le> p_created_at r \<and> p_created_at r = p_updated_at r)"
proof
  assume h: "t0 \<le> t1"
  let ?r = "PersonRead_of_create p t1"
  let ?st = "st\<lparr>persons := dict_setitem (persons st) (pc_id p) (PersonRead_of_create p t1)\<rparr>"
  from h have c: "create_person p t1 st = (Inr ?r, ?st)"
    by (simp add: create_person_cases)
  have g: "get_person (pc_id p) ?st = (Inr ?r, ?st)"
    by (simp add: get_person_def dict_contains_setitem dict_getitem_setitem)
  have f: "p_id ?r = pc_id p
        \<and> p_uni ?r = pc_uni p
        \<and> p_first_name ?r = pc_first_name p
        \<and> p_last_name ?r = pc_last_name p
        \<and> p_email ?r = pc_email p
        \<and> p_phone ?r = pc_phone p
        \<and> p_birth_date ?r = pc_birth_date p
        \<and> p_addresses ?r = pc_addresses p"
    by (simp add: PersonRead_of_create_def)
  from h have tm: "p_created_at ?r = t1 \<and> p_updated_at ?r = t1
        \<and> t0 \<le> p_created_at ?r \<and> p_created_at ?r = p_updated_at ?r"
    by (simp add: PersonRead_of_create_def)
  from c g f tm show "\<exists>r st'. create_person p t1 st = (Inr r, st')
        \<and> get_person (pc_id p) st' = (Inr r, st')
        \<and> p_id r = pc_id p
        \<and> p_uni r = pc_uni p
        \<and> p_first_name r = pc_first_name p
        \<and> p_last_name r = pc_last_name p
        \<and> p_email r = pc_email p
        \<and> p_phone r = pc_phone p
        \<and> p_birth_date r = pc_birth_date p
        \<and> p_addresses r = pc_addresses p
        \<and> p_created_at r = t1 \<and> p_updated_at r = t1
        \<and> t0 \<le> p_created_at r \<and> p_created_at r = p_updated_at r"
    by (intro exI [of _ ?r] exI [of _ ?st]) simp
qed

text \<open>
  C8, as the claim states it, fails: the two timestamps of a new allergy are two readings
  of the clock, one call of the default factory for \<^verbatim>\<open>created_at\<close> and one for
  \<^verbatim>\<open>updated_at\<close>; when the clock moves between the two, the record read back has
  \<^verbatim>\<open>created_at\<close> different from \<^verbatim>\<open>updated_at\<close>.
\<close>

theorem round_trip_counterexample:
  "fst (create_allergy new_allergy 300 301 demo) = Inr (AllergyRead_of_create new_allergy 300 301)
   \<and> fst (get_allergy 8 (snd (create_allergy new_allergy 300 301 demo)))
       = Inr (AllergyRead_of_create new_allergy 300 301)
   \<and> a_created_at (AllergyRead_of_create new_allergy 300 301) = 300
   \<and> a_updated_at (AllergyRead_of_create new_allergy 300 301) = 301
   \<and> a_created_at (AllergyRead_of_create new_allergy 300 301)
       \<noteq> a_updated_at (AllergyRead_of_create new_allergy 300 301)"
  by (simp add: create_allergy_cases get_allergy_def dict_defs demo_defs new_defs)

text \<open>
  C8, amended. For each of the four kinds, a create that passes the handler's guards (for
  an allergy or a medication the owner resolves and the identifier is new, for an address
  the identifier is new, for a person none) succeeds, and a read of the created
  identifier right after it returns the record the create returned, whose fields are the
  payload's and whose timestamps are at or after the time the create call began. For an
  allergy or a medication \<^verbatim>\<open>created_at\<close> is the first clock reading of the record's
  construction and \<^verbatim>\<open>updated_at\<close> the second: \<^verbatim>\<open>created_at\<close> is at most
  \<^verbatim>\<open>updated_at\<close>, and the two are equal exactly when the two readings are. For an address
  or a person, whose schemas are taken from the spec, the two timestamps are equal.
\<close>

theorem create_then_get:
  "(dict_contains (persons st) (ac_person_id a) \<and> \<not> dict_contains (allergies st) (ac_id a) \<and> t0 \<le> t1 \<and> t1 \<le> t2 \<longrightarrow>
     (\<exists>r st'. create_allergy a t1 t2 st = (Inr r, st')
        \<and> get_allergy (ac_id a) st' = (Inr r, st')
        \<and> a_id r = ac_id a
        \<and> a_person_id r = ac_person_id a
        \<and> a_allergen r = ac_allergen a
        \<and> a_allergy_type r = ac_allergy_type a
        \<and> a_reaction r = ac_reaction a
        \<and> a_severity r = ac_severity a
        \<and> a_noted_date r = ac_noted_date a
        \<and> a_created_at r = t1 \<and> a_updated_at r = t2
        \<and> t0 \<le> a_created_at r \<and> a_created_at r \<le> a_updated_at r
        \<and> (a_created_at r = a_updated_at r) = (t1 = t2)))
   \<and> (dict_contains (persons st) (mc_person_id m) \<and> \<not> dict_contains (medications st) (mc_id m) \<and> t0 \<le> t3 \<and> t3 \<le> t4 \<longrightarrow>
     (\<exists>r st'. create_medication m t3 t4 st = (Inr r, st')
        \<and> get_medication (mc_id m) st' = (Inr r, st')
        \<and> m_id r = mc_id m
        \<and> m_person_id r = mc_person_id m
        \<and> m_name r = mc_name m
        \<and> m_dose r = mc_dose m
        \<and> m_dose_unit r = mc_dose_unit m
        \<and> m_frequency r = mc_frequency m
        \<and> m_instructions r = mc_instructions m
        \<and> m_start_date r = mc_start_date m
        \<and> m_end_date r = mc_end_date m
        \<and> m_is_current r = mc_is_current m
        \<and> m_created_at r = t3 \<and> m_updated_at r = t4
        \<and> t0 \<le> m_created_at r \<and> m_created_at r \<le> m_updated_at r
        \<and> (m_created_at r = m_updated_at r) = (t3 = t4)))
   \<and> (\<not> dict_contains (addresses st) (adc_id ad) \<and> t0 \<le> t5 \<longrightarrow>
     (\<exists>r st'. create_address ad t5 st = (Inr r, st')
        \<and> get_address (adc_id ad) st' = (Inr r, st')
        \<and> ad_id r = adc_id ad
        \<and> ad_street r = adc_street ad
        \<and> ad_city r = adc_city ad
        \<and> ad_state r = adc_state ad
        \<and> ad_postal_code r = adc_postal_code ad
        \<and> ad_country r = adc_country ad
        \<and> ad_created_at r = t5 \<and> ad_updated_at r = t5
        \<and> t0 \<le> ad_created_at r \<and> ad_created_at r = ad_updated_at r))
   \<and> (t0 \<le> t6 \<longrightarrow>
     (\<exists>r st'. create_person p t6 st = (Inr r, st')
        \<and> get_person (pc_id p) st' = (Inr r, st')
        \<and> p_id r = pc_id p
        \<and> p_uni r = pc_uni p
        \<and> p_first_name r = pc_first_name p
        \<and> p_last_name r = pc_last_name p
        \<and> p_email r = pc_email p
        \<and> p_phone r = pc_phone p
        \<and> p_birth_date r = pc_birth_date p
        \<and> p_addresses r = pc_addresses p
        \<and> p_created_at r = t6 \<and> p_updated_at r = t6
        \<and> t0 \<le> p_created_at r \<and> p_created_at r = p_updated_at r))"
  by (intro conjI create_allergy_round_trip create_medication_round_trip
        create_address_round_trip create_person_round_trip)

theorem create_then_get_witness:
  "(\<exists>r st'. create_allergy new_allergy 300 301 demo = (Inr r, st')
        \<and> get_allergy 8 st' = (Inr r, st')
        \<and> a_allergen r = ''Penicillin''
        \<and> a_created_at r = 300 \<and> a_updated_at r = 301 \<and> 299 \<le> a_created_at r)
   \<and> (\<exists>r st'. create_medication new_medication 300 300 demo = (Inr r, st')
        \<and> get_medication 10 st' = (Inr r, st')
        \<and> m_name r = ''Amoxicillin'' \<and> m_created_at r = m_updated_at r)
   \<and> (\<exists>r st'. create_address new_address 300 demo = (Inr r, st')
        \<and> get_address 6 st' = (Inr r, st')
        \<and> ad_city r = Some ''SF'' \<and> 299 \<le> ad_created_at r)
   \<and> (\<exists>r st'. create_person new_person 300 demo = (Inr r, st')
        \<and> get_person 2 st' = (Inr r, st')
        \<and> p_first_name r = Some ''Grace'' \<and> 299 \<le> p_created_at r)"
proof -
  have h: "dict_contains (persons demo) (ac_person_id new_allergy)"
    "\<not> dict_contains (allergies demo) (ac_id new_allergy)"
    "dict_contains (persons demo) (mc_person_id new_medication)"
    "\<not> dict_contains (medications demo) (mc_id new_medication)"
    "\<not> dict_contains (addresses demo) (adc_id new_address)"
    by (simp_all add: dict_defs demo_def new_defs)
  have v: "ac_id new_allergy = 8" "ac_allergen new_allergy = ''Penicillin''"
    "mc_id new_medication = 10" "mc_name new_medication = ''Amoxicillin''"
    "adc_id new_address = 6" "adc_city new_address = Some ''SF''"
    "pc_id new_person = 2" "pc_first_name new_person = Some ''Grace''"
    by (simp_all add: new_defs)
  note T = create_then_get [where st = demo and a = new_allergy and m = new_medication
      and ad = new_address and p = new_person and ?t0.0 = 299 and ?t1.0 = 300 and ?t2.0 = 301
      and ?t3.0 = 300 and ?t4.0 = 300 and ?t5.0 = 300 and ?t6.0 = 300]
  have 1: "\<exists>r st'. create_allergy new_allergy 300 301 demo = (Inr r, st')
        \<and> get_allergy 8 st' = (Inr r, st')
        \<and> a_allergen r = ''Penicillin''
        \<and> a_created_at r = 300 \<and> a_updated_at r = 301 \<and> 299 \<le> a_created_at r"
    using T [THEN conjunct1] h by (auto simp: v)
  have 2: "\<exists>r st'. create_medication new_medication 300 300 demo = (Inr r, st')
        \<and> get_medication 10 st' = (Inr r, st')
        \<and> m_name r = ''Amoxicillin'' \<and> m_created_at r = m_updated_at r"
    using T [THEN conjunct2, THEN conjunct1] h by (auto simp: v)
  have 3: "\<exists>r st'. create_address new_address 300 demo = (Inr r, st')
        \<and> get_address 6 st' = (Inr r, st')
        \<and> ad_city r = Some ''SF'' \<and> 299 \<le> ad_created_at r"
    using T [THEN conjunct2, THEN conjunct2, THEN conjunct1] h by (auto simp: v)
  have 4: "\<exists>r st'. create_person new_person 300 demo = (Inr r, st')
        \<and> get_person 2 st' = (Inr r, st')
        \<and> p_first_name r = Some ''Grace'' \<and> 299 \<le> p_created_at r"
    using T [THEN conjunct2, THEN conjunct2, THEN conjunct2] by (auto simp: v)
  from 1 2 3 4 show ?thesis
    by (intro conjI)
qed

section \<open>What an update does to the timestamps\<close>

text \<open>No update handler reads the clock: the merged record is built from a dump that
  already holds \<^verbatim>\<open>updated_at\<close>, so the default factory does not run and the stored value
  stays.\<close>

lemma update_allergy_updated_at:
  "dict_getitem (allergies st) aid = Inr a \<Longrightarrow> update_allergy aid u st = (Inr a', st') \<Longrightarrow>
     a_updated_at a' = a_updated_at a"
  using AllergyRead_merge_fixed by (auto simp: update_allergy_Inr)

lemma update_medication_updated_at:
  "dict_getitem (medications st) mid = Inr m \<Longrightarrow> update_medication mid u st = (Inr m', st') \<Longrightarrow>
     m_updated_at m' = m_updated_at m"
  using MedicationRead_merge_fixed by (auto simp: update_medication_Inr)

text \<open>
  C2. The claim is that a successful merge sets \<^verbatim>\<open>updated_at\<close> to the time of the merge.
  The code does not: the stored allergy was last written at time 101; an update of its
  \<^verbatim>\<open>reaction\<close>, whenever it is made, succeeds and stores a record whose \<^verbatim>\<open>updated_at\<close> is
  still 101. The same holds of a medication.
\<close>

theorem update_leaves_updated_at_stale:
  "a_updated_at peanuts = 101
   \<and> dict_getitem (allergies demo) 7 = Inr peanuts
   \<and> update_allergy 7 (no_AllergyUpdate\<lparr>au_reaction := Some (Some ''Rash'')\<rparr>) demo
       = (Inr (peanuts\<lparr>a_reaction := Some ''Rash''\<rparr>),
          demo\<lparr>allergies := [(7, peanuts\<lparr>a_reaction := Some ''Rash''\<rparr>)]\<rparr>)
   \<and> a_updated_at (peanuts\<lparr>a_reaction := Some ''Rash''\<rparr>) = 101
   \<and> m_updated_at loratadine = 200
   \<and> fst (update_medication 9 (no_MedicationUpdate\<lparr>mu_is_current := Some (Some False)\<rparr>) demo)
       = Inr (loratadine\<lparr>m_is_current := False\<rparr>)
   \<and> m_updated_at (loratadine\<lparr>m_is_current := False\<rparr>) = 200"
  by (simp add: update_allergy_def AllergyRead_merge_def update_medication_def MedicationRead_merge_def
        Let_def dict_defs demo_defs)

section \<open>The date filter of the person list\<close>

text \<open>
  C5. The claim is that a record whose optional field is null never matches a supplied
  filter on that field. \<^verbatim>\<open>list_allergies\<close> and \<^verbatim>\<open>list_medications\<close> test the date for
  null before comparing; \<^verbatim>\<open>list_persons\<close> compares \<^verbatim>\<open>str(p.birth_date)\<close> directly, and
  \<^verbatim>\<open>str(None)\<close> is \<^verbatim>\<open>None\<close>: the person whose birth date is null is returned for
  \<^verbatim>\<open>birth_date=None\<close>, where an allergy whose noted date is null is not returned for
  \<^verbatim>\<open>noted_date=None\<close>.
\<close>

theorem null_birth_date_matches_None:
  "p_birth_date ada = None
   \<and> dict_values (persons demo) = [ada]
   \<and> list_persons None None None None None (Some ''None'') None None demo = [ada]
   \<and> list_persons None None None None None (Some ''1815-12-10'') None None demo = []
   \<and> list_allergies None None None None (Some ''None'') (demo\<lparr>allergies := [(7, peanuts\<lparr>a_noted_date := None\<rparr>)]\<rparr>) = []"
  by (simp add: list_persons_def list_allergies_def str_opt_date_def date_is_def Let_def dict_defs demo_defs)

section \<open>The list handlers as one conjunctive filter\<close>

text \<open>Each list handler returns the records of its store, in store order, that satisfy
  every supplied predicate.\<close>

lemma filter_if_given_eq: "filter_if_given x p xs = filter (\<lambda>r. given x (\<lambda>v. p v r)) xs"
  by (cases x) (simp_all add: filter_if_given_def given_def)

lemma str_date_example: "str_date (Date 2023 5 20) = ''2023-05-20''"
  by (simp add: str_date_def digit_def)




lemma list_persons_filter:
  "list_persons uni first_name last_name email phone birth_date city country st =
     filter (\<lambda>p. given uni (\<lambda>v. p_uni p = Some v)
               \<and> given first_name (\<lambda>v. p_first_name p = Some v)
               \<and> given last_name (\<lambda>v. p_last_name p = Some v)
               \<and> given email (\<lambda>v. p_email p = Some v)
               \<and> given phone (\<lambda>v. p_phone p = Some v)
               \<and> given birth_date (\<lambda>v. str_opt_date (p_birth_date p) = v)
               \<and> given city (\<lambda>v. \<exists>addr \<in> set (p_addresses p). ea_city addr = Some v)
               \<and> given country (\<lambda>v. \<exists>addr \<in> set (p_addresses p). ea_country addr = Some v))
       (dict_values (persons st))"
  by (simp add: list_persons_def Let_def filter_if_given_eq list_ex_iff)

section \<open>Filtering persons by an embedded address\<close>

text \<open>
  C6. A person of the store is in the result of \<^verbatim>\<open>list_persons\<close> with only \<^verbatim>\<open>city\<close>
  supplied exactly when at least one element of the person's embedded addresses has that
  city, and likewise for \<^verbatim>\<open>country\<close>; with more parameters supplied, exactly when every
  supplied predicate holds, the two address predicates each asking for some element.
\<close>

theorem person_address_filter_is_existential:
  "(p \<in> set (list_persons None None None None None None (Some c) None st) \<longleftrightarrow>
      p \<in> set (dict_values (persons st)) \<and> (\<exists>addr \<in> set (p_addresses p). ea_city addr = Some c))
   \<and> (p \<in> set (list_persons None None None None None None None (Some c) st) \<longleftrightarrow>
      p \<in> set (dict_values (persons st)) \<and> (\<exists>addr \<in> set (p_addresses p). ea_country addr = Some c))
   \<and> (p \<in> set (list_persons uni first_name last_name email phone birth_date city country st) \<longleftrightarrow>
      p \<in> set (dict_values (persons st))
      \<and> given uni (\<lambda>v. p_uni p = Some v)
      \<and> given first_name (\<lambda>v. p_first_name p = Some v)
      \<and> given last_name (\<lambda>v. p_last_name p = Some v)
      \<and> given email (\<lambda>v. p_email p = Some v)
      \<and> given phone (\<lambda>v. p_phone p = Some v)
      \<and> given birth_date (\<lambda>v. str_opt_date (p_birth_date p) = v)
      \<and> given city (\<lambda>v. \<exists>addr \<in> set (p_addresses p). ea_city addr = Some v)
      \<and> given country (\<lambda>v. \<exists>addr \<in> set (p_addresses p). ea_country addr = Some v))"
proof (intro conjI)
  show "p \<in> set (list_persons None None None None None None (Some c) None st) \<longleftrightarrow>
      p \<in> set (dict_values (persons st)) \<and> (\<exists>addr \<in> set (p_addresses p). ea_city addr = Some c)"
    by (simp add: list_persons_filter given_def)
  show "p \<in> set (list_persons None None None None None None None (Some c) st) \<longleftrightarrow>
      p \<in> set (dict_values (persons st)) \<and> (\<exists>addr \<in> set (p_addresses p). ea_country addr = Some c)"
    by (simp add: list_persons_filter given_def)
  show "p \<in> set (list_persons uni first_name last_name email phone birth_date city country st) \<longleftrightarrow>
      p \<in> set (dict_values (persons st))
      \<and> given uni (\<lambda>v. p_uni p = Some v)
      \<and> given first_name (\<lambda>v. p_first_name p = Some v)
      \<and> given last_name (\<lambda>v. p_last_name p = Some v)
      \<and> given email (\<lambda>v. p_email p = Some v)
      \<and> given phone (\<lambda>v. p_phone p = Some v)
      \<and> given birth_date (\<lambda>v. str_opt_date (p_birth_date p) = v)
      \<and> given city (\<lambda>v. \<exists>addr \<in> set (p_addresses p). ea_city addr = Some v)
      \<and> given country (\<lambda>v. \<exists>addr \<in> set (p_addresses p). ea_country addr = Some v)"
    by (simp add: list_persons_filter)
qed

theorem person_address_filter_is_existential_witness:
  "map ea_city (p_addresses ada) = [Some ''NYC'', Some ''SF'']
   \<and> ada \<in> set (list_persons None None None None None None (Some ''SF'') None demo)
   \<and> ada \<in> set (list_persons None None None None None None (Some ''NYC'') None demo)
   \<and> ada \<notin> set (list_persons None None None None None None (Some ''LA'') None demo)
   \<and> ada \<in> set (list_persons None None None None None None None (Some ''USA'') demo)"
  using person_address_filter_is_existential [of ada "''SF''" demo None None None None None None None None]
    person_address_filter_is_existential [of ada "''NYC''" demo None None None None None None None None]
    person_address_filter_is_existential [of ada "''LA''" demo None None None None None None None None]
    person_address_filter_is_existential [of ada "''USA''" demo None None None None None None None None]
  by (simp add: given_def dict_defs demo_defs)

section \<open>Order of the stores\<close>


lemma grows_setitem: "grows (dict_keys d) (dict_keys (dict_setitem d k v))"
  by (simp add: grows_def dict_keys_setitem dict_contains_def)
























end
